theory Spec2Isabelle
  imports Main "HOL-Library.AList"
begin

section \<open>Python values\<close>

text \<open>
  The configuration handed to \<open>NetworkConfiguration.parse_arguments\<close> is what
  \<open>json.loads\<close> produced, or what \<open>NetworkConfiguration.json\<close> returned: strings,
  booleans, integers, \<open>None\<close>, lists, string-keyed dictionaries and members of the
  enumeration \<open>NicType\<close>. Floating-point numbers are left out. A dictionary is an
  association list in insertion order; the first pair of a key is the one a lookup sees.
\<close>

datatype NicType = ISO | NM | MANUAL

fun NicType_value :: "NicType \<Rightarrow> string" where
  "NicType_value ISO = ''iso''"
| "NicType_value NM = ''nm''"
| "NicType_value MANUAL = ''manual''"

datatype pyval =
    PNone
  | PBool bool
  | PInt int
  | PStr string
  | PList "pyval list"
  | PDict "(string \<times> pyval) list"
  | PEnum NicType

type_synonym py_dict = "(string \<times> pyval) list"

text \<open>What is printed by \<open>log\<close> before the process exits, with the format arguments kept
  as data.\<close>

datatype log_message =
    Unknown_nic_type pyval "string list"
  | Manual_nic_requires_ip

datatype py_error =
    AttributeError
  | TypeError
  | ValueError
  | KeyError pyval
  | SystemExit int log_message

text \<open>Sequencing of statements that may raise: the first exception ends the run.\<close>

fun and_then :: "'e + 'a \<Rightarrow> ('a \<Rightarrow> 'e + 'b) \<Rightarrow> 'e + 'b" where
  "and_then (Inl e) f = Inl e"
| "and_then (Inr x) f = f x"

fun map_res :: "('a \<Rightarrow> 'e + 'b) \<Rightarrow> 'a list \<Rightarrow> 'e + 'b list" where
  "map_res f [] = Inr []"
| "map_res f (x # xs) = and_then (f x) (\<lambda>y. and_then (map_res f xs) (\<lambda>ys. Inr (y # ys)))"

text \<open>Python's truth value of an object (\<open>bool(x)\<close>). \<open>NicType\<close> mixes in \<open>str\<close>, so a
  member is as true as its string value.\<close>

fun truthy :: "pyval \<Rightarrow> bool" where
  "truthy PNone = False"
| "truthy (PBool b) = b"
| "truthy (PInt i) = (i \<noteq> 0)"
| "truthy (PStr s) = (s \<noteq> [])"
| "truthy (PList xs) = (xs \<noteq> [])"
| "truthy (PDict kvs) = (kvs \<noteq> [])"
| "truthy (PEnum t) = (NicType_value t \<noteq> [])"

text \<open>\<open>x == s\<close> for a string literal \<open>s\<close>: a \<open>NicType\<close> member equals its value.\<close>

fun py_eq_str :: "pyval \<Rightarrow> string \<Rightarrow> bool" where
  "py_eq_str (PStr s') s = (s' = s)"
| "py_eq_str (PEnum t) s = (NicType_value t = s)"
| "py_eq_str _ s = False"

fun isinstance_str :: "pyval \<Rightarrow> bool" where
  "isinstance_str (PStr s) = True"
| "isinstance_str (PEnum t) = True"
| "isinstance_str _ = False"

text \<open>\<open>d.get(k, default)\<close> on a dictionary.\<close>

definition dict_get :: "py_dict \<Rightarrow> string \<Rightarrow> pyval \<Rightarrow> pyval" where
  "dict_get d k dflt = (case map_of d k of None \<Rightarrow> dflt | Some v \<Rightarrow> v)"

text \<open>\<open>x.get(k, default)\<close> on any object: only a dictionary has the method.\<close>

fun py_get :: "pyval \<Rightarrow> string \<Rightarrow> pyval \<Rightarrow> py_error + pyval" where
  "py_get (PDict d) k dflt = Inr (dict_get d k dflt)"
| "py_get _ k dflt = Inl AttributeError"

fun substring :: "string \<Rightarrow> string \<Rightarrow> bool" where
  "substring k [] = (k = [])"
| "substring k (c # cs) = (take (length k) (c # cs) = k \<or> substring k cs)"

text \<open>\<open>k in x\<close> for a string literal \<open>k\<close>: key membership on a dictionary, substring test
  on a string, element test on a list, \<open>TypeError\<close> on anything else.\<close>

fun py_in :: "string \<Rightarrow> pyval \<Rightarrow> py_error + bool" where
  "py_in k (PDict d) = Inr (map_of d k \<noteq> None)"
| "py_in k (PStr s) = Inr (substring k s)"
| "py_in k (PEnum t) = Inr (substring k (NicType_value t))"
| "py_in k (PList xs) = Inr (list_ex (\<lambda>x. py_eq_str x k) xs)"
| "py_in k _ = Inl TypeError"

section \<open>NetworkConfiguration\<close>

record NetworkConfiguration =
  type :: NicType
  iface :: pyval
  ip :: pyval
  dhcp :: bool
  gateway :: pyval
  dns :: pyval

text \<open>The dataclass constructor with every keyword argument at its default.\<close>

definition new_NetworkConfiguration :: "NicType \<Rightarrow> NetworkConfiguration" where
  "new_NetworkConfiguration t =
     \<lparr>type = t, iface = PNone, ip = PNone, dhcp = True, gateway = PNone, dns = PNone\<rparr>"

text \<open>\<open>json\<close> returns the instance dictionary: the fields in declaration order.\<close>

definition json :: "NetworkConfiguration \<Rightarrow> pyval" where
  "json r = PDict [(''type'', PEnum (type r)), (''iface'', iface r), (''ip'', ip r),
     (''dhcp'', PBool (dhcp r)), (''gateway'', gateway r), (''dns'', dns r)]"

text \<open>\<open>NicType(x)\<close>: the member whose value equals \<open>x\<close>, a member itself unchanged,
  \<open>ValueError\<close> otherwise.\<close>

fun NicType_call :: "pyval \<Rightarrow> py_error + NicType" where
  "NicType_call (PEnum t) = Inr t"
| "NicType_call (PStr s) =
     (if s = ''iso'' then Inr ISO
      else if s = ''nm'' then Inr NM
      else if s = ''manual'' then Inr MANUAL
      else Inl ValueError)"
| "NicType_call _ = Inl ValueError"

definition parse_arguments :: "pyval \<Rightarrow> py_error + NetworkConfiguration option" where
  "parse_arguments config =
     and_then (py_get config ''type'' PNone) (\<lambda>nic_type.
     if \<not> truthy nic_type then
       if isinstance_str config then Inr (Some (new_NetworkConfiguration ISO))
       else and_then (py_get config ''NetworkManager'' PNone) (\<lambda>nm.
         if truthy nm then Inr (Some (new_NetworkConfiguration NM))
         else and_then (py_in ''ip'' config) (\<lambda>has_ip.
           if has_ip then
             and_then (py_get config ''nic'' (PStr [])) (\<lambda>v_iface.
             and_then (py_get config ''ip'' PNone) (\<lambda>v_ip.
             and_then (py_get config ''gateway'' (PStr [])) (\<lambda>v_gateway.
             and_then (py_get config ''dns'' (PList [])) (\<lambda>v_dns.
               Inr (Some ((new_NetworkConfiguration MANUAL)
                 \<lparr>iface := v_iface, ip := v_ip, gateway := v_gateway, dns := v_dns,
                  dhcp := False\<rparr>))))))
           else and_then (py_in ''nic'' config) (\<lambda>has_nic.
             if has_nic then
               and_then (py_get config ''nic'' (PStr [])) (\<lambda>v_iface.
                 Inr (Some ((new_NetworkConfiguration MANUAL)
                   \<lparr>iface := v_iface, dhcp := True\<rparr>)))
             else Inr None)))
     else
       case NicType_call nic_type of
         Inl e \<Rightarrow>
           if e = ValueError
           then Inl (SystemExit 1 (Unknown_nic_type nic_type (map NicType_value [ISO, NM, MANUAL])))
           else Inl e
       | Inr t \<Rightarrow>
           if t = MANUAL then
             let use_dhcp =
               and_then (py_get config ''iface'' (PStr [])) (\<lambda>v_iface.
                 Inr (Some ((new_NetworkConfiguration t)\<lparr>iface := v_iface\<rparr>)))
             in
             and_then (py_get config ''dhcp'' (PBool False)) (\<lambda>v_dhcp.
             if truthy v_dhcp then use_dhcp
             else and_then (map_res (\<lambda>v. py_get config v PNone) [''ip'', ''gateway'', ''dns''])
               (\<lambda>vs.
               if \<not> list_ex truthy vs then use_dhcp
               else and_then (py_get config ''ip'' (PStr [])) (\<lambda>v_ip.
                 if \<not> truthy v_ip then Inl (SystemExit 1 Manual_nic_requires_ip)
                 else
                   and_then (py_get config ''iface'' (PStr [])) (\<lambda>v_iface.
                   and_then (py_get config ''gateway'' (PStr [])) (\<lambda>v_gateway.
                   and_then (py_get config ''dns'' (PList [])) (\<lambda>v_dns.
                     Inr (Some ((new_NetworkConfiguration t)
                       \<lparr>iface := v_iface, ip := v_ip, gateway := v_gateway, dns := v_dns,
                        dhcp := False\<rparr>))))))))
           else Inr (Some (new_NetworkConfiguration t)))"

text \<open>\<open>__getitem__\<close> and \<open>get\<close>: the string-keyed accessors of a record.\<close>

definition getitem :: "NetworkConfiguration \<Rightarrow> string \<Rightarrow> py_error + pyval" where
  "getitem r key =
     (if key = ''type'' then Inr (PEnum (type r))
      else if key = ''iface'' then Inr (iface r)
      else if key = ''gateway'' then Inr (gateway r)
      else if key = ''dns'' then Inr (dns r)
      else if key = ''dhcp'' then Inr (PBool (dhcp r))
      else Inl (KeyError (PStr (''key '' @ key @ '' not available at NetworkConfiguration''))))"

definition get :: "NetworkConfiguration \<Rightarrow> string \<Rightarrow> pyval \<Rightarrow> py_error + pyval" where
  "get r key default_value =
     and_then (getitem r key) (\<lambda>result.
       if result = PNone then Inr default_value else Inr result)"

section \<open>Subvolume list and subvolume menu\<close>

text \<open>
  The collection edited by \<open>SubvolumeList\<close> maps a subvolume name to its value (a mount
  point string, or a dictionary with the keys \<open>mountpoint\<close> and \<open>options\<close>). The
  attributes \<open>data\<close>, \<open>target\<close> and \<open>action\<close> are set by the base class \<open>ListManager\<close>:
  \<open>target\<close> is \<open>None\<close> or a dictionary holding the selected entry, \<open>action\<close> the
  selected (translated) label.
\<close>

record SubvolumeList =
  data :: py_dict
  target :: "py_dict option"
  action :: string

text \<open>The scratch record \<open>ds\<close> of a \<open>SubvolumeMenu\<close>.\<close>

record subvolume_ds =
  name :: "string option"
  mountpoint :: pyval
  options :: pyval

record SubvolumeMenu =
  data :: "py_dict option"
  action :: string
  ds :: subvolume_ds

text \<open>\<open>SubvolumeMenu.__init__\<close>: the scratch record is seeded from the first entry of
  \<open>parameters\<close>, when there is one.\<close>

definition SubvolumeMenu_init :: "py_dict option \<Rightarrow> string \<Rightarrow> py_error + SubvolumeMenu" where
  "SubvolumeMenu_init parameters act =
     (let ds0 = \<lparr>name = None, mountpoint = PNone, options = PNone\<rparr> in
      case parameters of
        Some ((origkey, origval) # rest) \<Rightarrow>
          if isinstance_str origval then
            Inr \<lparr>data = parameters, action = act,
                 ds = ds0\<lparr>name := Some origkey, mountpoint := origval\<rparr>\<rparr>
          else
            and_then (py_get origval ''mountpoint'' PNone) (\<lambda>mp.
            and_then (py_get origval ''options'' PNone) (\<lambda>opts.
              Inr \<lparr>data = parameters, action = act,
                   ds = ds0\<lparr>name := Some origkey, mountpoint := mp, options := opts\<rparr>\<rparr>))
      | _ \<Rightarrow> Inr \<lparr>data = parameters, action = act, ds = ds0\<rparr>)"

text \<open>\<open>SubvolumeMenu.exit_callback\<close>. The selection of the cancel entry is kept by the
  base class \<open>GeneralMenu\<close> and is a parameter here.\<close>

definition exit_callback :: "pyval \<Rightarrow> SubvolumeMenu \<Rightarrow> py_error + SubvolumeMenu" where
  "exit_callback cancel_selection m =
     (if truthy cancel_selection then Inr m
      else case name (ds m) of
        None \<Rightarrow> Inr m
      | Some key \<Rightarrow>
          if key = [] then Inr m
          else
            let v = (if truthy (mountpoint (ds m)) then [(''mountpoint'', mountpoint (ds m))] else [])
                  @ (if truthy (options (ds m)) then [(''options'', options (ds m))] else [])
            in case SubvolumeMenu.data m of
                 None \<Rightarrow> Inl AttributeError
               | Some d \<Rightarrow> Inr (m\<lparr>data := Some (AList.update key (PDict v) d)\<rparr>))"

text \<open>\<open>d.update(other)\<close>: every pair of \<open>other\<close> is stored, in order.\<close>

definition dict_update :: "py_dict \<Rightarrow> py_dict \<Rightarrow> py_dict" where
  "dict_update d other = fold (\<lambda>(k, v). AList.update k v) other d"

text \<open>
  \<open>SubvolumeList.exec_action\<close>. The result pairs what the call returns or raises with
  the object's state at that moment. \<open>tr\<close> is the translation function \<open>_\<close>. The
  interactive part (the prompts of the \<open>with\<close> block, or \<open>run\<close>) belongs to
  \<open>GeneralMenu\<close>; \<open>session\<close> gives the scratch record and the selection of the cancel
  entry it leaves behind, after which the menu calls \<open>exit_callback\<close>. The menu's
  \<open>data\<close> and the list's \<open>target\<close> are the same dictionary object.
\<close>

definition exec_action ::
  "(string \<Rightarrow> string) \<Rightarrow> (SubvolumeMenu \<Rightarrow> subvolume_ds \<times> pyval) \<Rightarrow> SubvolumeList
     \<Rightarrow> (py_error + bool) \<times> SubvolumeList" where
  "exec_action tr session s =
     (let origkey = (case target s of Some ((k, v) # rest) \<Rightarrow> Some k | _ \<Rightarrow> None) in
      if SubvolumeList.action s = tr ''Delete'' then
        (case origkey of
           None \<Rightarrow> (Inl (KeyError PNone), s)
         | Some k \<Rightarrow>
             if map_of (SubvolumeList.data s) k = None then (Inl (KeyError (PStr k)), s)
             else (Inr True, s\<lparr>SubvolumeList.data := AList.delete k (SubvolumeList.data s)\<rparr>))
      else
        let s1 = (if SubvolumeList.action s = tr ''Add'' then s\<lparr>target := Some []\<rparr> else s) in
        case SubvolumeMenu_init (target s1) (SubvolumeList.action s1) of
          Inl e \<Rightarrow> (Inl e, s1)
        | Inr menu \<Rightarrow>
            (case session menu of (ds', cancel_selection) \<Rightarrow>
               (case exit_callback cancel_selection (menu\<lparr>ds := ds'\<rparr>) of
                  Inl e \<Rightarrow> (Inl e, s1)
                | Inr menu' \<Rightarrow>
                    let s2 = s1\<lparr>target := SubvolumeMenu.data menu'\<rparr> in
                    (case target s2 of
                       None \<Rightarrow> (Inl TypeError, s2)
                     | Some t \<Rightarrow>
                         (Inr True,
                          s2\<lparr>SubvolumeList.data := dict_update (SubvolumeList.data s2) t\<rparr>)))))"

text \<open>A session in which nothing is entered and the cancel entry is not selected.\<close>

definition idle_session :: "SubvolumeMenu \<Rightarrow> subvolume_ds \<times> pyval" where
  "idle_session m = (ds m, PNone)"

text \<open>
  A session in which the user enters the mount point \<open>/mnt/root\<close> and then chooses the
  cancel entry. That entry is built without a function that would give it a selection
  (the \<open>func\<close> argument is commented out in \<open>_setup_selection_menu_options\<close>), so
  choosing it stores nothing and \<open>get_selection\<close> still returns \<open>None\<close>.
\<close>

definition edit_then_cancel_session :: "SubvolumeMenu \<Rightarrow> subvolume_ds \<times> pyval" where
  "edit_then_cancel_session m = ((ds m)\<lparr>mountpoint := PStr ''/mnt/root''\<rparr>, PNone)"

section \<open>Parsing a network configuration\<close>

lemma parse_arguments_str: "parse_arguments (PStr s) = Inl AttributeError"
  by (simp add: parse_arguments_def)

lemma py_eq_str_manual:
  "py_eq_str t ''manual'' \<longleftrightarrow> t = PStr ''manual'' \<or> t = PEnum MANUAL"
  by (cases t; simp) (rename_tac k, case_tac k; simp)

lemma NicType_call_unknown:
  "\<not> py_eq_str t ''iso'' \<Longrightarrow> \<not> py_eq_str t ''nm'' \<Longrightarrow> \<not> py_eq_str t ''manual'' \<Longrightarrow>
   NicType_call t = Inl ValueError"
  by (cases t; simp) (rename_tac k, case_tac k; simp)

lemma parse_arguments_legacy:
  assumes "\<not> truthy (dict_get d ''type'' PNone)"
  shows "parse_arguments (PDict d) = Inr
    (if truthy (dict_get d ''NetworkManager'' PNone) then Some (new_NetworkConfiguration NM)
     else if map_of d ''ip'' \<noteq> None then
       Some \<lparr>type = MANUAL, iface = dict_get d ''nic'' (PStr ''''), ip = dict_get d ''ip'' PNone,
         dhcp = False, gateway = dict_get d ''gateway'' (PStr ''''),
         dns = dict_get d ''dns'' (PList [])\<rparr>
     else if map_of d ''nic'' \<noteq> None then
       Some \<lparr>type = MANUAL, iface = dict_get d ''nic'' (PStr ''''), ip = PNone,
         dhcp = True, gateway = PNone, dns = PNone\<rparr>
     else None)"
  using assms by (simp add: parse_arguments_def new_NetworkConfiguration_def)

lemma parse_arguments_manual:
  assumes "map_of d ''type'' = Some t" "py_eq_str t ''manual''"
  shows "parse_arguments (PDict d) =
    (if truthy (dict_get d ''dhcp'' (PBool False)) \<or>
        (\<not> truthy (dict_get d ''ip'' PNone) \<and> \<not> truthy (dict_get d ''gateway'' PNone)
          \<and> \<not> truthy (dict_get d ''dns'' PNone))
     then Inr (Some \<lparr>type = MANUAL, iface = dict_get d ''iface'' (PStr ''''), ip = PNone,
         dhcp = True, gateway = PNone, dns = PNone\<rparr>)
     else if \<not> truthy (dict_get d ''ip'' (PStr ''''))
       then Inl (SystemExit 1 Manual_nic_requires_ip)
     else Inr (Some \<lparr>type = MANUAL, iface = dict_get d ''iface'' (PStr ''''),
         ip = dict_get d ''ip'' (PStr ''''), dhcp = False,
         gateway = dict_get d ''gateway'' (PStr ''''), dns = dict_get d ''dns'' (PList [])\<rparr>))"
  using assms
  by (auto simp add: py_eq_str_manual parse_arguments_def new_NetworkConfiguration_def
      dict_get_def Let_def)

text \<open>
  Claim C1. The claim: every bare-string input is parsed to a record of kind \<open>ISO\<close>
  without an error. The code calls \<open>config.get\<close> before it tests
  \<open>isinstance(config, str)\<close>, and a string has no \<open>get\<close>: on the input \<open>"iso"\<close>
  the call raises \<open>AttributeError\<close> and returns no record.
\<close>

theorem parse_arguments_bare_string_raises:
  "parse_arguments (PStr ''iso'') = Inl AttributeError \<and>
   parse_arguments (PStr ''iso'') \<noteq> Inr (Some (new_NetworkConfiguration ISO))"
  by (simp add: parse_arguments_str)

text \<open>
  Claim C2. A mapping without a \<open>type\<close> key is resolved in a fixed order: a truthy
  \<open>NetworkManager\<close> field gives kind \<open>NM\<close>, whatever else is present; otherwise a
  present \<open>ip\<close> key gives a manual record without DHCP, with the interface from \<open>nic\<close>
  (default the empty string), the address from \<open>ip\<close>, the gateway from \<open>gateway\<close>
  (default the empty string) and the name servers from \<open>dns\<close> (default the empty
  list); otherwise a present \<open>nic\<close> key gives a manual record with DHCP and that
  interface; otherwise the result is \<open>None\<close>, and no error.
\<close>

theorem parse_arguments_no_type_key:
  assumes "map_of d ''type'' = None"
  shows "parse_arguments (PDict d) = Inr
    (if truthy (dict_get d ''NetworkManager'' PNone) then
       Some \<lparr>type = NM, iface = PNone, ip = PNone, dhcp = True, gateway = PNone, dns = PNone\<rparr>
     else if map_of d ''ip'' \<noteq> None then
       Some \<lparr>type = MANUAL, iface = dict_get d ''nic'' (PStr ''''), ip = dict_get d ''ip'' PNone,
         dhcp = False, gateway = dict_get d ''gateway'' (PStr ''''),
         dns = dict_get d ''dns'' (PList [])\<rparr>
     else if map_of d ''nic'' \<noteq> None then
       Some \<lparr>type = MANUAL, iface = dict_get d ''nic'' (PStr ''''), ip = PNone,
         dhcp = True, gateway = PNone, dns = PNone\<rparr>
     else None)"
proof -
  have "\<not> truthy (dict_get d ''type'' PNone)"
    using assms by (simp add: dict_get_def)
  then show ?thesis
    by (simp add: parse_arguments_legacy new_NetworkConfiguration_def)
qed

theorem parse_arguments_no_type_key_witness:
  "parse_arguments (PDict [(''NetworkManager'', PBool True), (''nic'', PStr ''eth0''),
       (''ip'', PStr ''10.0.0.2/24'')]) =
     Inr (Some \<lparr>type = NM, iface = PNone, ip = PNone, dhcp = True, gateway = PNone,
       dns = PNone\<rparr>)
   \<and> parse_arguments (PDict [(''nic'', PStr ''eth0''), (''ip'', PStr ''10.0.0.2/24'')]) =
     Inr (Some \<lparr>type = MANUAL, iface = PStr ''eth0'', ip = PStr ''10.0.0.2/24'', dhcp = False,
       gateway = PStr '''', dns = PList []\<rparr>)
   \<and> parse_arguments (PDict [(''nic'', PStr ''eth0'')]) =
     Inr (Some \<lparr>type = MANUAL, iface = PStr ''eth0'', ip = PNone, dhcp = True,
       gateway = PNone, dns = PNone\<rparr>)
   \<and> parse_arguments (PDict [(''hostname'', PStr ''box'')]) = Inr None"
  using parse_arguments_no_type_key [of "[(''NetworkManager'', PBool True), (''nic'', PStr ''eth0''),
       (''ip'', PStr ''10.0.0.2/24'')]"]
    parse_arguments_no_type_key [of "[(''nic'', PStr ''eth0''), (''ip'', PStr ''10.0.0.2/24'')]"]
    parse_arguments_no_type_key [of "[(''nic'', PStr ''eth0'')]"]
    parse_arguments_no_type_key [of "[(''hostname'', PStr ''box'')]"]
  by (simp add: dict_get_def)

text \<open>
  Claim C3. For a mapping with \<open>type = "manual"\<close> whose \<open>dhcp\<close> field is truthy, or in
  which none of \<open>ip\<close>, \<open>gateway\<close>, \<open>dns\<close> carries a truthy value, the result is a
  manual record with DHCP and the interface from \<open>iface\<close> (default the empty string).
  So \<open>dhcp = false\<close> without address, gateway and name servers still gives DHCP, and a
  truthy \<open>dhcp\<close> gives DHCP whatever the other three fields hold.
\<close>

theorem parse_arguments_manual_dhcp:
  assumes "map_of d ''type'' = Some (PStr ''manual'')"
    and "truthy (dict_get d ''dhcp'' (PBool False)) \<or>
        (\<not> truthy (dict_get d ''ip'' PNone) \<and> \<not> truthy (dict_get d ''gateway'' PNone)
          \<and> \<not> truthy (dict_get d ''dns'' PNone))"
  shows "parse_arguments (PDict d) =
     Inr (Some \<lparr>type = MANUAL, iface = dict_get d ''iface'' (PStr ''''), ip = PNone,
         dhcp = True, gateway = PNone, dns = PNone\<rparr>)"
  using assms parse_arguments_manual [of d "PStr ''manual''"] by simp

theorem parse_arguments_manual_dhcp_witness:
  "parse_arguments
     (PDict [(''type'', PStr ''manual''), (''dhcp'', PBool False), (''iface'', PStr ''eth0'')]) =
     Inr (Some \<lparr>type = MANUAL, iface = PStr ''eth0'', ip = PNone,
         dhcp = True, gateway = PNone, dns = PNone\<rparr>)"
  using parse_arguments_manual_dhcp
    [of "[(''type'', PStr ''manual''), (''dhcp'', PBool False), (''iface'', PStr ''eth0'')]"]
  by (simp add: dict_get_def)

text \<open>
  Claim C4. For a mapping with \<open>type = "manual"\<close> and a falsy \<open>dhcp\<close> field: when
  \<open>gateway\<close> or \<open>dns\<close> is truthy and \<open>ip\<close> is absent or empty, the call logs that an
  address is required and exits with status 1; when \<open>ip\<close> is present and not empty, the
  result is a manual record without DHCP, with interface, address, gateway (default the
  empty string) and name servers (default the empty list) copied from the fields.
\<close>

theorem parse_arguments_manual_static:
  assumes "map_of d ''type'' = Some (PStr ''manual'')"
    and "\<not> truthy (dict_get d ''dhcp'' (PBool False))"
  shows "((truthy (dict_get d ''gateway'' PNone) \<or> truthy (dict_get d ''dns'' PNone)) \<and>
          \<not> truthy (dict_get d ''ip'' (PStr '''')) \<longrightarrow>
          parse_arguments (PDict d) = Inl (SystemExit 1 Manual_nic_requires_ip))
       \<and> (truthy (dict_get d ''ip'' (PStr '''')) \<longrightarrow>
          parse_arguments (PDict d) =
            Inr (Some \<lparr>type = MANUAL, iface = dict_get d ''iface'' (PStr ''''),
              ip = dict_get d ''ip'' (PStr ''''), dhcp = False,
              gateway = dict_get d ''gateway'' (PStr ''''),
              dns = dict_get d ''dns'' (PList [])\<rparr>))"
  using assms parse_arguments_manual [of d "PStr ''manual''"]
  by (auto simp add: dict_get_def split: option.splits)

theorem parse_arguments_manual_static_witness:
  "parse_arguments (PDict [(''type'', PStr ''manual''), (''gateway'', PStr ''192.168.1.1'')]) =
     Inl (SystemExit 1 Manual_nic_requires_ip)
   \<and> parse_arguments (PDict [(''type'', PStr ''manual''), (''iface'', PStr ''eth0''),
        (''ip'', PStr ''192.168.1.50/24''), (''gateway'', PStr ''192.168.1.1''),
        (''dns'', PList [PStr ''1.1.1.1''])]) =
     Inr (Some \<lparr>type = MANUAL, iface = PStr ''eth0'', ip = PStr ''192.168.1.50/24'',
        dhcp = False, gateway = PStr ''192.168.1.1'', dns = PList [PStr ''1.1.1.1'']\<rparr>)"
  using parse_arguments_manual_static
      [of "[(''type'', PStr ''manual''), (''gateway'', PStr ''192.168.1.1'')]"]
    parse_arguments_manual_static
      [of "[(''type'', PStr ''manual''), (''iface'', PStr ''eth0''),
        (''ip'', PStr ''192.168.1.50/24''), (''gateway'', PStr ''192.168.1.1''),
        (''dns'', PList [PStr ''1.1.1.1''])]"]
  by (simp add: dict_get_def)

text \<open>
  Claim C5. For a mapping whose \<open>type\<close> field carries a truthy value that equals none
  of \<open>"iso"\<close>, \<open>"nm"\<close>, \<open>"manual"\<close> (compared exactly, so \<open>"Manual"\<close> is not one of
  them), the call logs the unknown type, naming the value and listing the three legal
  values, and exits with status 1; no record is returned.
\<close>

theorem parse_arguments_unknown_type:
  assumes "map_of d ''type'' = Some t" and "truthy t"
    and "\<not> py_eq_str t ''iso''" and "\<not> py_eq_str t ''nm''" and "\<not> py_eq_str t ''manual''"
  shows "parse_arguments (PDict d) =
    Inl (SystemExit 1 (Unknown_nic_type t [''iso'', ''nm'', ''manual'']))"
  using assms by (simp add: parse_arguments_def dict_get_def NicType_call_unknown)

theorem parse_arguments_unknown_type_witness:
  "parse_arguments (PDict [(''type'', PStr ''Manual''), (''iface'', PStr ''eth0'')]) =
    Inl (SystemExit 1 (Unknown_nic_type (PStr ''Manual'') [''iso'', ''nm'', ''manual'']))"
  using parse_arguments_unknown_type
    [of "[(''type'', PStr ''Manual''), (''iface'', PStr ''eth0'')]" "PStr ''Manual''"]
  by simp

text \<open>
  Claim C6. Round trip: a manual record without DHCP whose address, gateway and name
  servers are not empty is returned unchanged when its \<open>json\<close> dictionary is parsed
  again.
\<close>

theorem parse_arguments_json_roundtrip:
  assumes "type r = MANUAL" and "\<not> dhcp r"
    and "truthy (ip r)" and "truthy (gateway r)" and "truthy (dns r)"
  shows "parse_arguments (json r) = Inr (Some r)"
  using assms
  by (simp add: parse_arguments_def json_def dict_get_def new_NetworkConfiguration_def)

theorem parse_arguments_json_roundtrip_witness:
  "parse_arguments (json \<lparr>type = MANUAL, iface = PStr ''eth0'', ip = PStr ''192.168.1.50/24'',
        dhcp = False, gateway = PStr ''192.168.1.1'',
        dns = PList [PStr ''1.1.1.1'', PStr ''9.9.9.9'']\<rparr>)
   = Inr (Some \<lparr>type = MANUAL, iface = PStr ''eth0'', ip = PStr ''192.168.1.50/24'',
        dhcp = False, gateway = PStr ''192.168.1.1'',
        dns = PList [PStr ''1.1.1.1'', PStr ''9.9.9.9'']\<rparr>)"
  using parse_arguments_json_roundtrip
    [of "\<lparr>type = MANUAL, iface = PStr ''eth0'', ip = PStr ''192.168.1.50/24'',
        dhcp = False, gateway = PStr ''192.168.1.1'',
        dns = PList [PStr ''1.1.1.1'', PStr ''9.9.9.9'']\<rparr>"]
  by simp

text \<open>
  Claim C10. A mapping whose \<open>type\<close> key is present with a falsy value (the empty
  string, for one) is parsed as the same mapping without the key: the result is the one
  of the legacy chain (\<open>NetworkManager\<close>, \<open>ip\<close>, \<open>nic\<close>, \<open>None\<close>), never the exit for
  an unknown type.
\<close>

theorem parse_arguments_falsy_type:
  assumes "map_of d ''type'' = Some t" and "\<not> truthy t"
  shows "parse_arguments (PDict d) = parse_arguments (PDict (AList.delete ''type'' d))
    \<and> parse_arguments (PDict d) = Inr
    (if truthy (dict_get d ''NetworkManager'' PNone) then Some (new_NetworkConfiguration NM)
     else if map_of d ''ip'' \<noteq> None then
       Some \<lparr>type = MANUAL, iface = dict_get d ''nic'' (PStr ''''), ip = dict_get d ''ip'' PNone,
         dhcp = False, gateway = dict_get d ''gateway'' (PStr ''''),
         dns = dict_get d ''dns'' (PList [])\<rparr>
     else if map_of d ''nic'' \<noteq> None then
       Some \<lparr>type = MANUAL, iface = dict_get d ''nic'' (PStr ''''), ip = PNone,
         dhcp = True, gateway = PNone, dns = PNone\<rparr>
     else None)"
  using assms by (simp add: parse_arguments_legacy dict_get_def delete_conv')

theorem parse_arguments_falsy_type_witness:
  "parse_arguments (PDict [(''type'', PStr ''''), (''nic'', PStr ''eth0'')]) =
     parse_arguments (PDict [(''nic'', PStr ''eth0'')])
   \<and> parse_arguments (PDict [(''type'', PStr ''''), (''nic'', PStr ''eth0'')]) =
     Inr (Some \<lparr>type = MANUAL, iface = PStr ''eth0'', ip = PNone,
         dhcp = True, gateway = PNone, dns = PNone\<rparr>)"
  using parse_arguments_falsy_type [of "[(''type'', PStr ''''), (''nic'', PStr ''eth0'')]" "PStr ''''"]
  by (auto simp add: dict_get_def)

section \<open>The string-keyed accessors\<close>

text \<open>
  Claim C9. \<open>__getitem__\<close> returns the field of the record for the keys \<open>type\<close>,
  \<open>iface\<close>, \<open>gateway\<close>, \<open>dns\<close> and \<open>dhcp\<close>, and raises \<open>KeyError\<close> for every other
  key; \<open>get\<close> returns the same field, or the default when the field is \<open>None\<close>, and
  raises \<open>KeyError\<close> for every other key. The address cannot be read under \<open>ip\<close>,
  whatever the record holds. So both succeed exactly for the five keys.
\<close>

theorem getitem_get_keys:
  "getitem r ''type'' = Inr (PEnum (type r))
   \<and> getitem r ''iface'' = Inr (iface r)
   \<and> getitem r ''gateway'' = Inr (gateway r)
   \<and> getitem r ''dns'' = Inr (dns r)
   \<and> getitem r ''dhcp'' = Inr (PBool (dhcp r))
   \<and> get r ''type'' dflt = Inr (PEnum (type r))
   \<and> get r ''iface'' dflt = Inr (if iface r = PNone then dflt else iface r)
   \<and> get r ''gateway'' dflt = Inr (if gateway r = PNone then dflt else gateway r)
   \<and> get r ''dns'' dflt = Inr (if dns r = PNone then dflt else dns r)
   \<and> get r ''dhcp'' dflt = Inr (PBool (dhcp r))
   \<and> (key \<notin> {''type'', ''iface'', ''gateway'', ''dns'', ''dhcp''} \<longrightarrow>
        getitem r key =
          Inl (KeyError (PStr (''key '' @ key @ '' not available at NetworkConfiguration'')))
        \<and> get r key dflt =
          Inl (KeyError (PStr (''key '' @ key @ '' not available at NetworkConfiguration''))))
   \<and> getitem r ''ip'' = Inl (KeyError (PStr ''key ip not available at NetworkConfiguration''))
   \<and> get r ''ip'' dflt = Inl (KeyError (PStr ''key ip not available at NetworkConfiguration''))
   \<and> ((\<exists>v. getitem r key = Inr v) \<longleftrightarrow> key \<in> {''type'', ''iface'', ''gateway'', ''dns'', ''dhcp''})
   \<and> ((\<exists>v. get r key dflt = Inr v) \<longleftrightarrow> key \<in> {''type'', ''iface'', ''gateway'', ''dns'', ''dhcp''})"
  by (simp add: getitem_def get_def)

theorem getitem_get_keys_witness:
  "get \<lparr>type = MANUAL, iface = PStr ''eth0'', ip = PStr ''10.0.0.2/24'', dhcp = False,
        gateway = PNone, dns = PNone\<rparr> ''gateway'' (PStr ''none'') = Inr (PStr ''none'')
   \<and> get \<lparr>type = MANUAL, iface = PStr ''eth0'', ip = PStr ''10.0.0.2/24'', dhcp = False,
        gateway = PNone, dns = PNone\<rparr> ''iface'' (PStr ''none'') = Inr (PStr ''eth0'')
   \<and> getitem \<lparr>type = MANUAL, iface = PStr ''eth0'', ip = PStr ''10.0.0.2/24'', dhcp = False,
        gateway = PNone, dns = PNone\<rparr> ''address'' =
       Inl (KeyError (PStr ''key address not available at NetworkConfiguration''))
   \<and> getitem \<lparr>type = MANUAL, iface = PStr ''eth0'', ip = PStr ''10.0.0.2/24'', dhcp = False,
        gateway = PNone, dns = PNone\<rparr> ''ip'' =
       Inl (KeyError (PStr ''key ip not available at NetworkConfiguration''))"
  using getitem_get_keys
    [of "\<lparr>type = MANUAL, iface = PStr ''eth0'', ip = PStr ''10.0.0.2/24'', dhcp = False,
        gateway = PNone, dns = PNone\<rparr>" "PStr ''none''" "''address''"]
  by simp

section \<open>Editing the subvolume collection\<close>

lemma dict_update_triv:
  "\<forall>(k, v) \<in> set t. map_of d k = Some v \<Longrightarrow> dict_update d t = d"
  unfolding dict_update_def
  by (induction t) (auto simp add: update_triv)

lemma SubvolumeMenu_init_data:
  assumes "SubvolumeMenu_init p a = Inr m"
  shows "SubvolumeMenu.data m = p"
proof (cases p)
  case None
  with assms show ?thesis by (auto simp add: SubvolumeMenu_init_def)
next
  case (Some t)
  show ?thesis
  proof (cases t)
    case Nil
    with Some assms show ?thesis by (auto simp add: SubvolumeMenu_init_def)
  next
    case (Cons kv rest)
    obtain k v where kv: "kv = (k, v)" by (cases kv)
    show ?thesis
      using assms Some Cons kv
      by (cases v) (auto simp add: SubvolumeMenu_init_def split: if_splits)
  qed
qed

lemma exit_callback_abort:
  "truthy c \<or> name (ds m) = None \<or> name (ds m) = Some [] \<Longrightarrow> exit_callback c m = Inr m"
  by (auto simp add: exit_callback_def)

text \<open>Deleting a key that is in the collection removes it.\<close>

lemma exec_action_delete_present:
  assumes "SubvolumeList.action s = tr ''Delete''"
    and "target s = Some ((k, v) # rest)"
    and "k \<in> fst ` set (SubvolumeList.data s)"
  shows "exec_action tr session s =
    (Inr True, s\<lparr>SubvolumeList.data := AList.delete k (SubvolumeList.data s)\<rparr>)"
  using assms by (auto simp add: exec_action_def map_of_eq_None_iff)

text \<open>
  Claim C7, as the specification states it: deleting a key that is not in the collection
  raises no error. It does: with the collection \<open>{"root": "/"}\<close> and the target
  \<open>{"home": "/home"}\<close>, \<open>del self.data[origkey]\<close> raises \<open>KeyError\<close>.
\<close>

theorem exec_action_delete_missing_key_raises:
  "exec_action id idle_session
     \<lparr>SubvolumeList.data = [(''root'', PStr ''/'')], target = Some [(''home'', PStr ''/home'')],
      SubvolumeList.action = ''Delete''\<rparr>
   = (Inl (KeyError (PStr ''home'')),
     \<lparr>SubvolumeList.data = [(''root'', PStr ''/'')], target = Some [(''home'', PStr ''/home'')],
      SubvolumeList.action = ''Delete''\<rparr>)"
  by (simp add: exec_action_def)

text \<open>
  Claim C7, amended. For every collection and every key that is not in it, the delete
  action targeted at that key raises \<open>KeyError\<close> for the key, and the collection, like
  the rest of the object, is left as it was.
\<close>

theorem exec_action_delete_missing_key:
  assumes "SubvolumeList.action s = tr ''Delete''"
    and "target s = Some ((k, v) # rest)"
    and "k \<notin> fst ` set (SubvolumeList.data s)"
  shows "exec_action tr session s = (Inl (KeyError (PStr k)), s)"
  using assms by (simp add: exec_action_def map_of_eq_None_iff)

theorem exec_action_delete_missing_key_witness:
  "exec_action id idle_session
     \<lparr>SubvolumeList.data = [], target = Some [(''home'', PStr ''/home'')],
      SubvolumeList.action = ''Delete''\<rparr>
   = (Inl (KeyError (PStr ''home'')),
     \<lparr>SubvolumeList.data = [], target = Some [(''home'', PStr ''/home'')],
      SubvolumeList.action = ''Delete''\<rparr>)"
  using exec_action_delete_missing_key
    [of "\<lparr>SubvolumeList.data = [], target = Some [(''home'', PStr ''/home'')],
      SubvolumeList.action = ''Delete''\<rparr>" id "''home''" "PStr ''/home''" "[]" idle_session]
  by simp

text \<open>
  What \<open>exit_callback\<close> does with the owning dictionary of the menu. When the selection
  of the cancel entry is truthy or the name is empty, nothing changes. Otherwise the
  entry under the name becomes the dictionary of the truthy ones among mount point and
  options, whatever their values; every other entry is as before, and the name keeps its
  place among the keys or is added last.
\<close>

lemma exit_callback_commit:
  "((truthy c \<or> name (ds m) = None \<or> name (ds m) = Some []) \<longrightarrow> exit_callback c m = Inr m)
   \<and> (\<forall>k d. \<not> truthy c \<and> name (ds m) = Some k \<and> k \<noteq> [] \<and> SubvolumeMenu.data m = Some d \<longrightarrow>
        (\<exists>d'. exit_callback c m = Inr (m\<lparr>data := Some d'\<rparr>)
          \<and> map_of d' k = Some (PDict
               ((if truthy (mountpoint (ds m)) then [(''mountpoint'', mountpoint (ds m))] else [])
                @ (if truthy (options (ds m)) then [(''options'', options (ds m))] else [])))
          \<and> (\<forall>k'. k' \<noteq> k \<longrightarrow> map_of d' k' = map_of d k')
          \<and> map fst d' = (if k \<in> set (map fst d) then map fst d else map fst d @ [k])))"
proof (intro conjI allI impI)
  assume "truthy c \<or> name (ds m) = None \<or> name (ds m) = Some []"
  then show "exit_callback c m = Inr m"
    by (rule exit_callback_abort)
next
  fix k d
  assume h: "\<not> truthy c \<and> name (ds m) = Some k \<and> k \<noteq> [] \<and> SubvolumeMenu.data m = Some d"
  define v where "v = PDict
     ((if truthy (mountpoint (ds m)) then [(''mountpoint'', mountpoint (ds m))] else [])
      @ (if truthy (options (ds m)) then [(''options'', options (ds m))] else []))"
  define d' where "d' = AList.update k v d"
  have run: "exit_callback c m = Inr (m\<lparr>data := Some d'\<rparr>)"
    using h by (simp add: exit_callback_def Let_def d'_def v_def)
  have stored: "map_of d' k = Some v"
    by (simp add: d'_def update_conv')
  have others: "\<forall>k'. k' \<noteq> k \<longrightarrow> map_of d' k' = map_of d k'"
    by (simp add: d'_def update_conv')
  have keys: "map fst d' = (if k \<in> set (map fst d) then map fst d else map fst d @ [k])"
    by (simp add: d'_def update_keys)
  from run stored others keys
  show "\<exists>d'. exit_callback c m = Inr (m\<lparr>data := Some d'\<rparr>)
          \<and> map_of d' k = Some (PDict
               ((if truthy (mountpoint (ds m)) then [(''mountpoint'', mountpoint (ds m))] else [])
                @ (if truthy (options (ds m)) then [(''options'', options (ds m))] else [])))
          \<and> (\<forall>k'. k' \<noteq> k \<longrightarrow> map_of d' k' = map_of d k')
          \<and> map fst d' = (if k \<in> set (map fst d) then map fst d else map fst d @ [k])"
    unfolding v_def by blast
qed

text \<open>
  At the level of the list: an add or edit action whose session ends with the
  cancel entry selected, or with an empty name, leaves the collection of the list as it
  was, provided the target of an edit was taken from the collection.
\<close>

lemma exec_action_abort_keeps_data:
  assumes nd: "SubvolumeList.action s \<noteq> tr ''Delete''"
    and abort: "\<And>menu ds' c. session menu = (ds', c) \<Longrightarrow>
                  truthy c \<or> name ds' = None \<or> name ds' = Some []"
    and sel: "\<And>t. SubvolumeList.action s \<noteq> tr ''Add'' \<Longrightarrow> target s = Some t \<Longrightarrow>
                  \<forall>(k, v) \<in> set t. map_of (SubvolumeList.data s) k = Some v"
  shows "SubvolumeList.data (snd (exec_action tr session s)) = SubvolumeList.data s"
proof -
  define s1 where
    "s1 = (if SubvolumeList.action s = tr ''Add'' then s\<lparr>target := Some []\<rparr> else s)"
  have d1: "SubvolumeList.data s1 = SubvolumeList.data s" by (simp add: s1_def)
  have t1: "\<And>t. target s1 = Some t \<Longrightarrow>
      \<forall>(k, v) \<in> set t. map_of (SubvolumeList.data s) k = Some v"
    using sel by (auto simp add: s1_def split: if_splits)
  show ?thesis
  proof (cases "SubvolumeMenu_init (target s1) (SubvolumeList.action s1)")
    case (Inl e)
    then show ?thesis using nd d1 by (simp add: exec_action_def Let_def s1_def [symmetric])
  next
    case (Inr menu)
    obtain ds' c where sess: "session menu = (ds', c)" by (cases "session menu")
    have md: "SubvolumeMenu.data menu = target s1" using Inr by (rule SubvolumeMenu_init_data)
    have cb: "exit_callback c (menu\<lparr>ds := ds'\<rparr>) = Inr (menu\<lparr>ds := ds'\<rparr>)"
      using abort [OF sess] by (intro exit_callback_abort) simp
    show ?thesis
    proof (cases "target s1")
      case None
      then show ?thesis using nd d1 Inr sess cb md
        by (simp add: exec_action_def Let_def s1_def [symmetric])
    next
      case (Some t)
      have "dict_update (SubvolumeList.data s) t = SubvolumeList.data s"
        using t1 [OF Some] by (rule dict_update_triv)
      then show ?thesis using nd d1 Inr sess cb md Some
        by (simp add: exec_action_def Let_def s1_def [symmetric])
    qed
  qed
qed

text \<open>
  At the level of the list, a session that ends with no selection on the cancel entry
  and a name that is not empty is stored in the collection, by an add action and by an
  edit action alike.
\<close>

lemma exec_action_add_commit:
  assumes act: "SubvolumeList.action s = tr ''Add''" and nd: "tr ''Add'' \<noteq> tr ''Delete''"
    and sess: "session \<lparr>data = Some [], action = tr ''Add'',
        ds = \<lparr>name = None, mountpoint = PNone, options = PNone\<rparr>\<rparr> = (ds', c)"
    and nc: "\<not> truthy c" and nm: "name ds' = Some k" and ne: "k \<noteq> []"
  shows "exec_action tr session s =
    (Inr True,
     s\<lparr>target := Some [(k, PDict
          ((if truthy (mountpoint ds') then [(''mountpoint'', mountpoint ds')] else [])
           @ (if truthy (options ds') then [(''options'', options ds')] else [])))],
       SubvolumeList.data := AList.update k (PDict
          ((if truthy (mountpoint ds') then [(''mountpoint'', mountpoint ds')] else [])
           @ (if truthy (options ds') then [(''options'', options ds')] else [])))
          (SubvolumeList.data s)\<rparr>)"
  using assms
  by (simp add: exec_action_def SubvolumeMenu_init_def exit_callback_def dict_update_def Let_def)

lemma exec_action_edit_commit:
  assumes na: "SubvolumeList.action s \<noteq> tr ''Add''" and nd: "SubvolumeList.action s \<noteq> tr ''Delete''"
    and tg: "target s = Some [(k0, PDict e)]"
    and sess: "session \<lparr>data = Some [(k0, PDict e)], action = SubvolumeList.action s,
        ds = \<lparr>name = Some k0, mountpoint = dict_get e ''mountpoint'' PNone,
               options = dict_get e ''options'' PNone\<rparr>\<rparr> = (ds', c)"
    and nc: "\<not> truthy c" and nm: "name ds' = Some k0" and ne: "k0 \<noteq> []"
  shows "exec_action tr session s =
    (Inr True,
     s\<lparr>target := Some [(k0, PDict
          ((if truthy (mountpoint ds') then [(''mountpoint'', mountpoint ds')] else [])
           @ (if truthy (options ds') then [(''options'', options ds')] else [])))],
       SubvolumeList.data := AList.update k0 (PDict
          ((if truthy (mountpoint ds') then [(''mountpoint'', mountpoint ds')] else [])
           @ (if truthy (options ds') then [(''options'', options ds')] else [])))
          (SubvolumeList.data s)\<rparr>)"
  using assms
  by (simp add: exec_action_def SubvolumeMenu_init_def exit_callback_def dict_update_def Let_def)

text \<open>
  Claim C8. The claim: the scratch record of an edit session is merged into the
  collection exactly when the cancel entry was not chosen and the name is not empty; when
  the cancel entry was chosen, the collection is left as it was. The code: on the
  collection \<open>{"root": {"mountpoint": "/"}}\<close>, an edit of \<open>root\<close> in which the mount
  point \<open>/mnt/root\<close> is entered and the cancel entry is then chosen returns with the
  new mount point stored in the collection. Choosing the entry leaves no selection
  behind, so the test that opens \<open>exit_callback\<close> (commented \<open>we exit without moving data\<close>)
  does not hold, and \<open>exec_action\<close> updates the collection from the target.
\<close>

theorem exec_action_cancel_still_merges:
  "exec_action id edit_then_cancel_session
     \<lparr>SubvolumeList.data = [(''root'', PDict [(''mountpoint'', PStr ''/'')])],
      target = Some [(''root'', PDict [(''mountpoint'', PStr ''/'')])],
      SubvolumeList.action = ''Edit''\<rparr>
   = (Inr True,
     \<lparr>SubvolumeList.data = [(''root'', PDict [(''mountpoint'', PStr ''/mnt/root'')])],
      target = Some [(''root'', PDict [(''mountpoint'', PStr ''/mnt/root'')])],
      SubvolumeList.action = ''Edit''\<rparr>)"
  by (simp add: exec_action_def SubvolumeMenu_init_def edit_then_cancel_session_def
      exit_callback_def dict_update_def dict_get_def)

end
